theory Spec2Isabelle
  imports Main "HOL-Library.Sublist"
begin

section \<open>The EBRD job scraper: job records, link canonicalisation, deduplication\<close>

text \<open>
  The program \<^verbatim>\<open>ebrd_scraper.py\<close> loads one search page, turns the rows of its
  results table into job records, removes records with a repeated link and builds an
  RSS 2.0 element tree from what is left.

  Python strings are modelled as \<^typ>\<open>string\<close>; every character is read as one code
  point below 256.
\<close>

subsection \<open>Constants and job records\<close>

text \<open>\<^verbatim>\<open>BASE_URL\<close> and \<^verbatim>\<open>SEARCH_URL\<close>, lines 21 and 22.\<close>

definition BASE_URL :: string where
  "BASE_URL = ''https://jobs.ebrd.com''"

definition SEARCH_URL :: string where
  "SEARCH_URL = BASE_URL @ ''/search/?q=&sortColumn=referencedate&sortDirection=desc''"

text \<open>
  The dictionary appended at lines 127 to 132, with its four keys
  \<^verbatim>\<open>'title'\<close>, \<^verbatim>\<open>'link'\<close>, \<^verbatim>\<open>'location'\<close> and \<^verbatim>\<open>'posting_date'\<close>.
\<close>

record job =
  title :: string
  link :: string
  location :: string
  posting_date :: string

subsection \<open>Making a URL absolute (lines 105 to 109)\<close>

text \<open>\<^verbatim>\<open>s.startswith(p)\<close>: the first \<open>len(p)\<close> characters of \<open>s\<close> are \<open>p\<close>.\<close>

definition startswith :: "string \<Rightarrow> string \<Rightarrow> bool" where
  "startswith s p = (take (length p) s = p)"

text \<open>
  \<^verbatim>\<open>
  if job_url.startswith('/'):
      job_url = BASE_URL + job_url
  elif not job_url.startswith('http'):
      job_url = BASE_URL + '/' + job_url
  \<close>
\<close>

definition make_absolute :: "string \<Rightarrow> string" where
  "make_absolute job_url =
     (if startswith job_url ''/'' then BASE_URL @ job_url
      else if \<not> startswith job_url ''http'' then BASE_URL @ ''/'' @ job_url
      else job_url)"




subsection \<open>Removing duplicates (lines 209 to 215)\<close>

text \<open>
  \<^verbatim>\<open>
  unique_jobs = []
  seen_links = set()
  for job in jobs:
      if job['link'] not in seen_links:
          unique_jobs.append(job)
          seen_links.add(job['link'])
  \<close>
  The loop, with its two variables as arguments, and the loop started on the empty list
  and the empty set.
\<close>

fun dedup_loop :: "job list \<Rightarrow> job list \<Rightarrow> string set \<Rightarrow> job list" where
  "dedup_loop [] unique_jobs seen_links = unique_jobs"
| "dedup_loop (j # jobs) unique_jobs seen_links =
     (if link j \<notin> seen_links
      then dedup_loop jobs (unique_jobs @ [j]) (insert (link j) seen_links)
      else dedup_loop jobs unique_jobs seen_links)"

definition remove_duplicates :: "job list \<Rightarrow> job list" where
  "remove_duplicates jobs = dedup_loop jobs [] {}"

section \<open>The extractor: reading job records off the parsed page\<close>

subsection \<open>The document tree of BeautifulSoup\<close>

text \<open>
  A parsed page is a tree of tags, text strings and comments. An attribute value is a
  string, or a list of strings for a multi-valued attribute such as \<^verbatim>\<open>class\<close>. The
  attributes of a tag are a dictionary, here an association list read with
  \<^const>\<open>map_of\<close>. \<open>Comment\<close> stands for every string that \<^verbatim>\<open>get_text\<close> leaves out.
\<close>

datatype attr_value = AStr string | AList "string list"

datatype node =
    Tag string "(string \<times> attr_value) list" "node list"
  | NavigableString string
  | Comment string

text \<open>\<^verbatim>\<open>tag.descendants\<close>: everything below a tag, in document order.\<close>

fun descendants :: "node \<Rightarrow> node list" where
  "descendants (Tag n a cs) = concat (map (\<lambda>c. c # descendants c) cs)"
| "descendants (NavigableString s) = []"
| "descendants (Comment s) = []"

text \<open>\<^verbatim>\<open>tag.get(key)\<close>, which is \<^verbatim>\<open>None\<close> when the attribute is absent.\<close>

fun tag_get :: "node \<Rightarrow> string \<Rightarrow> attr_value option" where
  "tag_get (Tag n a cs) key = map_of a key"
| "tag_get (NavigableString s) key = None"
| "tag_get (Comment s) key = None"

fun is_tag :: "string \<Rightarrow> node \<Rightarrow> bool" where
  "is_tag n (Tag m a cs) = (m = n)"
| "is_tag n (NavigableString s) = False"
| "is_tag n (Comment s) = False"

text \<open>\<^verbatim>\<open>sep.join(xs)\<close>.\<close>

fun join :: "string \<Rightarrow> string list \<Rightarrow> string" where
  "join sep [] = []"
| "join sep [x] = x"
| "join sep (x # y # ys) = x @ sep @ join sep (y # ys)"

text \<open>
  The attribute filter \<^verbatim>\<open>{'class': c}\<close> for a class name \<open>c\<close> without a space: a
  multi-valued attribute matches when one of its values is \<open>c\<close> or when its values
  joined by spaces are \<open>c\<close>; a plain string matches when it is \<open>c\<close>.
\<close>

definition has_class :: "string \<Rightarrow> node \<Rightarrow> bool" where
  "has_class c t =
     (case tag_get t ''class'' of
        None \<Rightarrow> False
      | Some (AStr s) \<Rightarrow> s = c
      | Some (AList cs) \<Rightarrow> c \<in> set cs \<or> join '' '' cs = c)"

text \<open>
  \<^verbatim>\<open>t.find_all(n)\<close> and \<^verbatim>\<open>t.find_all(n, {'class': c})\<close> search the descendants of
  \<open>t\<close>; \<^verbatim>\<open>find\<close> is the first result of \<^verbatim>\<open>find_all\<close>, or \<^verbatim>\<open>None\<close>.
\<close>

definition find_all :: "node \<Rightarrow> string \<Rightarrow> node list" where
  "find_all t n = filter (is_tag n) (descendants t)"

definition find_all_class :: "node \<Rightarrow> string \<Rightarrow> string \<Rightarrow> node list" where
  "find_all_class t n c = filter (\<lambda>x. is_tag n x \<and> has_class c x) (descendants t)"

definition find_tag :: "node \<Rightarrow> string \<Rightarrow> node option" where
  "find_tag t n = (case find_all t n of [] \<Rightarrow> None | x # xs \<Rightarrow> Some x)"

definition find_class :: "node \<Rightarrow> string \<Rightarrow> string \<Rightarrow> node option" where
  "find_class t n c = (case find_all_class t n c of [] \<Rightarrow> None | x # xs \<Rightarrow> Some x)"

text \<open>
  \<^verbatim>\<open>tag.get_text(strip=True)\<close>: the text strings below the tag, each stripped of
  leading and trailing whitespace, the empty ones dropped, the rest concatenated.
  \<open>isspace\<close> lists the whitespace code points below 256.
\<close>

definition isspace :: "char \<Rightarrow> bool" where
  "isspace ch = (of_char ch \<in> {9, 10, 11, 12, 13, 28, 29, 30, 31, 32, 133, 160 :: nat})"

definition strip :: "string \<Rightarrow> string" where
  "strip s = rev (dropWhile isspace (rev (dropWhile isspace s)))"

fun string_of :: "node \<Rightarrow> string option" where
  "string_of (NavigableString s) = Some s"
| "string_of (Tag n a cs) = None"
| "string_of (Comment s) = None"

definition get_text_strip :: "node \<Rightarrow> string" where
  "get_text_strip t =
     concat (filter (\<lambda>s. s \<noteq> []) (map strip (List.map_filter string_of (descendants t))))"

subsection \<open>What the program prints\<close>

text \<open>
  One value per \<^verbatim>\<open>print\<close> call. A constant message is \<open>Line\<close> with its text; a
  message with a formatted value carries the value:
  \<^item> \<open>TimeoutWarning\<close>: \<^verbatim>\<open>Warning: Timeout waiting for job listings table: {e}\<close>
  \<^item> \<open>FoundTables n\<close>: \<^verbatim>\<open>Found {len(all_tables)} table(s) total\<close>
  \<^item> \<open>TableClasses cs\<close>: \<^verbatim>\<open>Table classes found: [t.get('class') for t in all_tables]\<close>
  \<^item> \<open>FoundRows n\<close>: \<^verbatim>\<open>Found {len(rows)} job rows\<close>
  \<^item> \<open>RowError\<close>: \<^verbatim>\<open>Error parsing job row: {e}\<close>
  \<^item> \<open>UniqueJobs n\<close>: \<^verbatim>\<open>Unique jobs: {len(unique_jobs)}\<close>
  \<^item> \<open>Saved f\<close>: \<^verbatim>\<open>[SUCCESS] RSS feed saved to: {output_file}\<close>
  \<^item> \<open>TotalJobs n\<close>: \<^verbatim>\<open>[SUCCESS] Total jobs in feed: {len(unique_jobs)}\<close>
  \<^item> \<open>Sample i t l\<close>: \<^verbatim>\<open>{i}. {job['title']} - {job['location']}\<close>
\<close>

datatype log_line =
    Line string
  | TimeoutWarning
  | FoundTables nat
  | TableClasses "attr_value option list"
  | FoundRows nat
  | RowError
  | UniqueJobs nat
  | Saved string
  | TotalJobs nat
  | Sample nat string string

subsection \<open>One row (lines 96 to 136)\<close>

text \<open>
  The body of the row loop ends in one of three ways: \<^verbatim>\<open>continue\<close> without a record
  (no hyperlink at line 100, or a missing title at line 125), an exception caught at
  line 134, or a record appended at line 127.

  The one exception the model has is the \<^verbatim>\<open>AttributeError\<close> of
  \<^verbatim>\<open>job_url.startswith\<close> when the \<^verbatim>\<open>href\<close> is not a string. A tag is always true,
  so the tests \<^verbatim>\<open>if cells[1]\<close> and \<^verbatim>\<open>if cells[2]\<close> always take the text of the cell.
\<close>

datatype row_result = Skipped | Faulted | Appended job

definition parse_row :: "node \<Rightarrow> row_result" where
  "parse_row row =
     (case find_tag row ''a'' of
        None \<Rightarrow> Skipped
      | Some link_tag \<Rightarrow>
          (let title_text = get_text_strip link_tag in
           case (case tag_get link_tag ''href'' of None \<Rightarrow> AStr [] | Some v \<Rightarrow> v) of
             AList vs \<Rightarrow> Faulted
           | AStr href \<Rightarrow>
               (let job_url = make_absolute href;
                    cells = find_all row ''td'';
                    location_text =
                      (if length cells \<ge> 2 then get_text_strip (cells ! 1)
                       else ''Not specified'');
                    posting_date_text =
                      (if length cells \<ge> 3 then get_text_strip (cells ! 2)
                       else ''Not specified'')
                in if title_text = [] \<or> job_url = [] \<or> title_text = [] then Skipped
                   else Appended \<lparr>title = title_text, link = job_url,
                          location = location_text, posting_date = posting_date_text\<rparr>)))"

text \<open>
  The loop \<^verbatim>\<open>for row in rows\<close> (line 95), with \<^verbatim>\<open>all_jobs\<close> and the lines printed so
  far as arguments.
\<close>

fun row_loop :: "node list \<Rightarrow> job list \<Rightarrow> log_line list \<Rightarrow> job list \<times> log_line list" where
  "row_loop [] all_jobs out = (all_jobs, out)"
| "row_loop (row # rows) all_jobs out =
     (case parse_row row of
        Skipped \<Rightarrow> row_loop rows all_jobs out
      | Faulted \<Rightarrow> row_loop rows all_jobs (out @ [RowError])
      | Appended j \<Rightarrow> row_loop rows (all_jobs @ [j]) out)"

subsection \<open>The page (lines 72 to 136)\<close>

text \<open>
  \<^verbatim>\<open>
  rows = table.find_all('tr', {'class': 'data-row'})
  if not rows:
      rows = table.find_all('tr')
      rows = [r for r in rows if r.find('a')]
  \<close>
\<close>

definition select_rows :: "node \<Rightarrow> node list" where
  "select_rows table =
     (let rows = find_all_class table ''tr'' ''data-row''
      in if rows = [] then filter (\<lambda>r. find_tag r ''a'' \<noteq> None) (find_all table ''tr'')
         else rows)"

text \<open>
  From the parsed page to the records and the lines printed on the way: the early
  \<^verbatim>\<open>return []\<close> of line 81 when no table has the class \<^verbatim>\<open>searchResults\<close>, the row
  loop otherwise.
\<close>

definition parse_page :: "node \<Rightarrow> job list \<times> log_line list" where
  "parse_page soup =
     (case find_class soup ''table'' ''searchResults'' of
        None \<Rightarrow>
          (let all_tables = find_all soup ''table''
           in ([], [Line ''ERROR: Could not find job listings table'',
                    FoundTables (length all_tables)]
                   @ (if all_tables \<noteq> []
                      then [TableClasses (map (\<lambda>t. tag_get t ''class'') all_tables)]
                      else [])))
      | Some table \<Rightarrow>
          (let rows = select_rows table
           in row_loop rows []
                [Line ''[OK] Job table found, parsing jobs...'', FoundRows (length rows)]))"

section \<open>The feed builder (lines 144 to 188)\<close>

text \<open>
  An element of \<^verbatim>\<open>xml.etree.ElementTree\<close>: tag, attributes, text and children.
\<close>

datatype element =
  Element (tag: string) (attrib: "(string \<times> string) list") (etext: "string option")
    (children: "element list")

text \<open>
  \<^verbatim>\<open>ET.SubElement(parent, tag)\<close> appends a new element to the children of its parent.
  \<open>SubElement parent child\<close> is the parent after the call, \<open>child\<close> being the new
  element with the text and attributes the code goes on to give it.
\<close>

fun SubElement :: "element \<Rightarrow> element \<Rightarrow> element" where
  "SubElement (Element t a x cs) child = Element t a x (cs @ [child])"

text \<open>\<^verbatim>\<open>ET.SubElement(parent, tag).text = s\<close> adds this element.\<close>

definition text_element :: "string \<Rightarrow> string \<Rightarrow> element" where
  "text_element t s = Element t [] (Some s) []"

text \<open>
  The body of the loop over the jobs (lines 168 to 186). \<open>stamp\<close> is what
  \<^verbatim>\<open>datetime.utcnow().strftime('%a, %d %b %Y %H:%M:%S GMT')\<close> returns at line 181.
\<close>

definition make_item :: "string \<Rightarrow> job \<Rightarrow> element" where
  "make_item stamp j =
     (let item = Element ''item'' [] None [];
          item = SubElement item (text_element ''title'' (title j));
          item = SubElement item (text_element ''link'' (link j));
          description = ''Location: '' @ location j @ [CHR 0x0A] @ ''Posting Date: ''
                          @ posting_date j;
          item = SubElement item (text_element ''description'' description);
          item = SubElement item (text_element ''pubDate'' stamp);
          item = SubElement item (Element ''guid'' [(''isPermaLink'', ''true'')] (Some (link j)) [])
      in item)"

text \<open>
  The clock is read once for \<^verbatim>\<open>lastBuildDate\<close> (line 158) and once more for every
  job (line 181). \<open>now k\<close> is the formatted time that the \<open>k\<close>-th reading of one call
  returns, counted from 0. The loop carries the channel and the number of readings made.
\<close>

fun item_loop :: "(nat \<Rightarrow> string) \<Rightarrow> job list \<Rightarrow> element \<Rightarrow> nat \<Rightarrow> element" where
  "item_loop now [] channel k = channel"
| "item_loop now (j # jobs) channel k =
     item_loop now jobs (SubElement channel (make_item (now k) j)) (Suc k)"

text \<open>
  The channel is built first and put under the root last; in the source the root holds
  the channel from line 151 on and sees every later change to it.
\<close>

definition create_rss_feed :: "(nat \<Rightarrow> string) \<Rightarrow> job list \<Rightarrow> element" where
  "create_rss_feed now jobs =
     (let channel = Element ''channel'' [] None [];
          channel = SubElement channel (text_element ''title'' ''EBRD Job Vacancies'');
          channel = SubElement channel (text_element ''link'' SEARCH_URL);
          channel = SubElement channel (text_element ''description''
            ''Current job opportunities at the European Bank for Reconstruction and Development'');
          channel = SubElement channel (text_element ''language'' ''en'');
          channel = SubElement channel (text_element ''lastBuildDate'' (now 0));
          channel = SubElement channel
            (Element ''atom:link''
               [(''href'', ''https://cinfoposte.github.io/ebrd-jobs/ebrd_jobs.xml''),
                (''rel'', ''self''), (''type'', ''application/rss+xml'')] None []);
          channel = item_loop now jobs channel 1
      in Element ''rss''
           [(''xmlns:atom'', ''http://www.w3.org/2005/Atom''), (''version'', ''2.0'')] None
           [channel])"

text \<open>
  Reading a tree the way a client of ElementTree does: \<^verbatim>\<open>e.findall(t)\<close> are the
  children of \<open>e\<close> with tag \<open>t\<close>, \<^verbatim>\<open>e.findtext(t)\<close> is the text of the first of them.
\<close>

definition findall :: "element \<Rightarrow> string \<Rightarrow> element list" where
  "findall e t = filter (\<lambda>c. tag c = t) (children e)"

definition findtext :: "element \<Rightarrow> string \<Rightarrow> string option" where
  "findtext e t =
     (case findall e t of
        [] \<Rightarrow> None
      | c # cs \<Rightarrow> Some (case etext c of None \<Rightarrow> [] | Some s \<Rightarrow> s))"

text \<open>
  The time stamps of a feed, in document order: for each channel its
  \<^verbatim>\<open>lastBuildDate\<close>, then the \<^verbatim>\<open>pubDate\<close> of each of its items.
\<close>

definition feed_timestamps :: "element \<Rightarrow> string option list" where
  "feed_timestamps rss =
     concat (map (\<lambda>channel. findtext channel ''lastBuildDate''
                    # map (\<lambda>item. findtext item ''pubDate'') (findall channel ''item''))
               (findall rss ''channel''))"

text \<open>
  The six children that the channel has before the first item (lines 154 to 164), as a
  list; \<open>stamp\<close> is the text of \<^verbatim>\<open>lastBuildDate\<close>.
\<close>

definition channel_head :: "string \<Rightarrow> element list" where
  "channel_head stamp =
     [text_element ''title'' ''EBRD Job Vacancies'',
      text_element ''link'' SEARCH_URL,
      text_element ''description''
        ''Current job opportunities at the European Bank for Reconstruction and Development'',
      text_element ''language'' ''en'',
      text_element ''lastBuildDate'' stamp,
      Element ''atom:link''
        [(''href'', ''https://cinfoposte.github.io/ebrd-jobs/ebrd_jobs.xml''),
         (''rel'', ''self''), (''type'', ''application/rss+xml'')] None []]"

subsection \<open>Well-formed trees\<close>

text \<open>
  What a tree needs for its serialisation to be well-formed XML with namespaces: every
  tag and attribute name is a name (a letter or underscore, then letters, digits,
  hyphens, dots and underscores), with at most one prefix before a colon; no element has
  two attributes of the same name; and the prefix of a name is declared by an
  \<^verbatim>\<open>xmlns:\<close> attribute of the element or of an element above it. The prefixes
  \<^verbatim>\<open>xmlns\<close> and \<^verbatim>\<open>xml\<close> of attributes need no declaration.
\<close>

definition name_start_char :: "char \<Rightarrow> bool" where
  "name_start_char c =
     (c \<in> set ''abcdefghijklmnopqrstuvwxyzABCDEFGHIJKLMNOPQRSTUVWXYZ_'')"

definition name_char :: "char \<Rightarrow> bool" where
  "name_char c = (name_start_char c \<or> c \<in> set ''0123456789-.'')"

definition ncname :: "string \<Rightarrow> bool" where
  "ncname s = (case s of [] \<Rightarrow> False | c # cs \<Rightarrow> name_start_char c \<and> list_all name_char cs)"

definition qname :: "string list \<Rightarrow> string \<Rightarrow> bool" where
  "qname ps s =
     (if CHR '':'' \<in> set s
      then ncname (takeWhile (\<lambda>c. c \<noteq> CHR '':'') s) \<and>
           ncname (tl (dropWhile (\<lambda>c. c \<noteq> CHR '':'') s)) \<and>
           takeWhile (\<lambda>c. c \<noteq> CHR '':'') s \<in> set ps
      else ncname s)"

definition declared :: "(string \<times> string) list \<Rightarrow> string list" where
  "declared a = map (drop 6) (filter (\<lambda>k. take 6 k = ''xmlns:'') (map fst a))"

fun well_formed :: "string list \<Rightarrow> element \<Rightarrow> bool" where
  "well_formed ps (Element t a x cs) =
     (qname (declared a @ ps) t \<and>
      distinct (map fst a) \<and>
      list_all (qname (''xmlns'' # ''xml'' # declared a @ ps)) (map fst a) \<and>
      list_all (well_formed (declared a @ ps)) cs)"

subsection \<open>Serialising the tree (lines 190 to 194)\<close>

text \<open>The exceptions that leave \<^verbatim>\<open>fetch_jobs_with_selenium\<close> and \<^verbatim>\<open>main\<close>.\<close>

datatype error = SessionStartFailed | NavigationFailed | ExpatError

text \<open>
  The characters that XML 1.0 allows in a document: tab, line feed, carriage return and
  everything from the space on.
\<close>

definition xml_char :: "char \<Rightarrow> bool" where
  "xml_char c = (of_char c \<in> {9, 10, 13 :: nat} \<or> (32 :: nat) \<le> of_char c)"

text \<open>
  What an XML parser does to the line ends of a document before anything else: a
  carriage return followed by a line feed becomes one line feed, and so does every
  other carriage return.
\<close>

fun normalize_newlines :: "string \<Rightarrow> string" where
  "normalize_newlines [] = []"
| "normalize_newlines [c] = (if c = CHR 0x0D then [CHR 0x0A] else [c])"
| "normalize_newlines (c # d # s) =
     (if c = CHR 0x0D
      then (if d = CHR 0x0A then CHR 0x0A # normalize_newlines s
            else CHR 0x0A # normalize_newlines (d # s))
      else c # normalize_newlines (d # s))"

text \<open>
  \<^verbatim>\<open>_write_data\<close> of \<^verbatim>\<open>xml.dom.minidom\<close>, which escapes the four characters
  \<^verbatim>\<open>&\<close>, \<^verbatim>\<open><\<close>, \<^verbatim>\<open>"\<close> and \<^verbatim>\<open>>\<close>.
\<close>

definition escape_char :: "char \<Rightarrow> string" where
  "escape_char c =
     (if c = CHR ''&'' then ''&amp;''
      else if c = CHR ''<'' then ''&lt;''
      else if c = CHR 0x22 then ''&quot;''
      else if c = CHR ''>'' then ''&gt;''
      else [c])"

definition write_data :: "string \<Rightarrow> string" where
  "write_data s = concat (map escape_char s)"

definition newl :: string where
  "newl = [CHR 0x0A]"

text \<open>
  \<^verbatim>\<open>prettify_xml\<close> is three library calls. \<^verbatim>\<open>ET.tostring\<close> writes the tree as
  compact XML; \<^verbatim>\<open>minidom.parseString\<close> parses that text; \<^verbatim>\<open>toprettyxml\<close> writes the
  parsed document again, indented by two spaces. The model gives the exception of the
  second step and the text that the third step returns.
  \<^item> \<^verbatim>\<open>ET.tostring\<close> writes a text as it is but for \<^verbatim>\<open>&\<close>, \<^verbatim>\<open><\<close>, \<^verbatim>\<open>>\<close>, so a
    character that XML forbids reaches the parser, which raises \<^verbatim>\<open>ExpatError\<close>; so
    does a tag or attribute name that is no name, or a prefix that is not declared.
  \<^item> The parser normalises the line ends of a text. In an attribute value
    \<^verbatim>\<open>ET.tostring\<close> writes tab, line feed and carriage return as character references,
    so the value comes through as it was.
  \<^item> An empty text leaves no text node.
  \<^item> \<^verbatim>\<open>writexml\<close> of a \<^verbatim>\<open>minidom\<close> element writes the element on one line when it has
    no child node or a text as its only child node, and every child node on a line of
    its own otherwise, a text too.
\<close>

fun legal_chars :: "element \<Rightarrow> bool" where
  "legal_chars (Element t a x cs) =
     (list_all (\<lambda>(k, v). list_all xml_char v) a \<and>
      (case x of None \<Rightarrow> True | Some s \<Rightarrow> list_all xml_char s) \<and>
      list_all legal_chars cs)"

fun writexml :: "string \<Rightarrow> element \<Rightarrow> string" where
  "writexml indent (Element t a x cs) =
     indent @ ''<'' @ t
     @ concat (map (\<lambda>(k, v). '' '' @ k @ ''='' @ [CHR 0x22] @ write_data v @ [CHR 0x22]) a)
     @ (let data = (case x of None \<Rightarrow> [] | Some s \<Rightarrow> normalize_newlines s)
        in if data = [] \<and> cs = [] then ''/>'' @ newl
           else if cs = [] then ''>'' @ write_data data @ ''</'' @ t @ ''>'' @ newl
           else ''>'' @ newl
                @ (if data = [] then [] else write_data (indent @ ''  '' @ data @ newl))
                @ concat (map (writexml (indent @ ''  '')) cs)
                @ indent @ ''</'' @ t @ ''>'' @ newl)"

definition prettify_xml :: "element \<Rightarrow> error + string" where
  "prettify_xml element =
     (if well_formed [] element \<and> legal_chars element
      then Inr (''<?xml version='' @ [CHR 0x22] @ ''1.0'' @ [CHR 0x22] @ '' encoding=''
                @ [CHR 0x22] @ ''utf-8'' @ [CHR 0x22] @ ''?>'' @ newl @ writexml [] element)
      else Inl ExpatError)"


section \<open>The run: browser, files and console\<close>

text \<open>
  What a run changes: the files it writes, the lines it prints, and the number of
  times it has read the clock.
\<close>

record world =
  files :: "string \<Rightarrow> string option"
  console :: "log_line list"
  clock_reads :: nat

text \<open>
  What a run is given from outside: whether the browser session starts
  (\<^verbatim>\<open>setup_driver()\<close>), whether the page loads (\<^verbatim>\<open>driver.get\<close>), whether the wait for
  the marker element ends before its timeout, the markup of the page
  (\<^verbatim>\<open>driver.page_source\<close>), the parser \<^verbatim>\<open>BeautifulSoup(_, 'html.parser')\<close>,
  and the formatted time of each clock reading.
\<close>

record env =
  starts :: bool
  loads :: bool
  marker_found :: bool
  page_source :: string
  parser :: "string \<Rightarrow> node"
  clock :: "nat \<Rightarrow> string"

definition print :: "world \<Rightarrow> log_line list \<Rightarrow> world" where
  "print w ls = w\<lparr>console := console w @ ls\<rparr>"

text \<open>
  \<^verbatim>\<open>fetch_jobs_with_selenium\<close> (lines 37 to 142). The driver is set up before the
  \<^verbatim>\<open>try\<close>; from there on every way out passes the \<^verbatim>\<open>finally\<close> block, which closes the
  browser and prints.
\<close>

definition fetch_jobs_with_selenium :: "env \<Rightarrow> world \<Rightarrow> (error + job list) \<times> world" where
  "fetch_jobs_with_selenium e w =
     (let w = print w [Line ''Starting Chrome browser (headless mode)...'']
      in if \<not> starts e then (Inl SessionStartFailed, w)
      else
        (let w = print w [Line ''Loading EBRD jobs page...'']
         in if \<not> loads e then (Inl NavigationFailed, print w [Line ''[OK] Browser closed''])
         else
           (let w = print w [Line ''Waiting for page content to load...''];
                w = print w [if marker_found e then Line ''[OK] Job listings table found''
                             else TimeoutWarning];
                html_content = page_source e;
                w = w\<lparr>files := (files w)(''debug_page.html'' \<mapsto> html_content)\<rparr>;
                w = print w [Line ''[OK] Saved debug HTML to debug_page.html''];
                soup = parser e html_content;
                (all_jobs, out) = parse_page soup;
                w = print w out
            in (Inr all_jobs, print w [Line ''[OK] Browser closed'']))))"

text \<open>
  \<^verbatim>\<open>main\<close> (lines 196 to 238). \<open>Returned\<close> is a normal return, \<open>Raised\<close> an exception
  that leaves \<^verbatim>\<open>main\<close>: one of the extractor, or the one of \<^verbatim>\<open>prettify_xml\<close> at
  line 225, after which nothing is written.
\<close>

datatype outcome = Returned | Raised error

fun sample_lines :: "nat \<Rightarrow> job list \<Rightarrow> log_line list" where
  "sample_lines i [] = []"
| "sample_lines i (j # jobs) = Sample i (title j) (location j) # sample_lines (Suc i) jobs"

text \<open>The three lines printed first (lines 198 to 200).\<close>

definition banner :: "log_line list" where
  "banner = [Line (replicate 60 CHR ''=''), Line ''EBRD Job Scraper'',
             Line (replicate 60 CHR ''='')]"

definition main :: "env \<Rightarrow> world \<Rightarrow> outcome \<times> world" where
  "main e w =
     (let w = print w banner
      in case fetch_jobs_with_selenium e w of
           (Inl err, w) \<Rightarrow> (Raised err, w)
         | (Inr jobs, w) \<Rightarrow>
             if jobs = [] then (Returned, print w [Line ''No jobs found!''])
             else
               (let unique_jobs = remove_duplicates jobs;
                    w = print w [UniqueJobs (length unique_jobs)];
                    w = print w [Line (CHR 0x0A # ''Generating RSS feed...'')];
                    rss_feed = create_rss_feed (\<lambda>k. clock e (clock_reads w + k)) unique_jobs;
                    w = w\<lparr>clock_reads := clock_reads w + 1 + length unique_jobs\<rparr>;
                    output_file = ''ebrd_jobs.xml''
                in case prettify_xml rss_feed of
                     Inl err \<Rightarrow> (Raised err, w)
                   | Inr xml_content \<Rightarrow>
                       (let w = w\<lparr>files := (files w)(output_file \<mapsto> xml_content)\<rparr>;
                            w = print w [Saved output_file, TotalJobs (length unique_jobs),
                                         Line (CHR 0x0A # ''Sample jobs:'')];
                            w = print w (sample_lines 1 (take 5 unique_jobs));
                            w = print w [Line (CHR 0x0A # replicate 60 CHR ''=''),
                                         Line ''Done!'', Line (replicate 60 CHR ''='')]
                        in (Returned, w))))"

section \<open>Example inputs\<close>

text \<open>
  Rows, pages and a run environment on which the theorems below are instantiated. The
  rows are: a complete row, a row whose link has no \<^verbatim>\<open>href\<close>, a row whose link has
  no text, a data row without a link, a header row, and a row with a link but without
  the row class.
\<close>

definition analyst_row :: node where
  "analyst_row =
     Tag ''tr'' [(''class'', AList [''data-row''])]
       [Tag ''td'' [] [Tag ''a'' [(''href'', AStr ''/jobs/123'')] [NavigableString '' Analyst '']],
        Tag ''td'' [] [NavigableString ''London''],
        Tag ''td'' [] [NavigableString ''2024-01-01'']]"

definition banker_row :: node where
  "banker_row =
     Tag ''tr'' [(''class'', AList [''data-row''])]
       [Tag ''td'' [] [Tag ''a'' [] [NavigableString ''Banker'']]]"

definition untitled_row :: node where
  "untitled_row =
     Tag ''tr'' [(''class'', AList [''data-row''])]
       [Tag ''td'' [] [Tag ''a'' [(''href'', AStr ''/jobs/9'')] [NavigableString '' '']]]"

definition linkless_row :: node where
  "linkless_row =
     Tag ''tr'' [(''class'', AList [''data-row''])] [Tag ''td'' [] [NavigableString ''No vacancies'']]"

definition header_row :: node where
  "header_row = Tag ''tr'' [] [Tag ''th'' [] [NavigableString ''Title'']]"

definition plain_row :: node where
  "plain_row =
     Tag ''tr'' [] [Tag ''td'' [] [Tag ''a'' [(''href'', AStr ''job/7'')] [NavigableString ''Clerk'']]]"

definition results_page :: node where
  "results_page =
     Tag ''[document]'' []
       [Tag ''table'' [(''class'', AList [''searchResults''])]
          [header_row, linkless_row, analyst_row, untitled_row, banker_row, banker_row]]"

definition fallback_table :: node where
  "fallback_table =
     Tag ''table'' [(''class'', AList [''searchResults''])] [header_row, plain_row]"

definition other_page :: node where
  "other_page =
     Tag ''[document]'' [] [Tag ''table'' [(''class'', AList [''layout''])] [header_row], Tag ''table'' [] []]"

definition example_env :: "node \<Rightarrow> env" where
  "example_env soup =
     \<lparr>starts = True, loads = True, marker_found = True, page_source = ''<html></html>'',
      parser = (\<lambda>markup. soup), clock = (\<lambda>k. ''Wed, 04 Nov 2026 12:00:00 GMT'')\<rparr>"

definition example_world :: world where
  "example_world = \<lparr>files = [''ebrd_jobs.xml'' \<mapsto> ''old feed''], console = [], clock_reads = 0\<rparr>"

section \<open>Properties of link canonicalisation\<close>

lemma startswith_append [simp]: "startswith (p @ s) p"
  by (simp add: startswith_def)

lemma BASE_URL_http: "startswith (BASE_URL @ s) ''http''"
  by (simp add: startswith_def BASE_URL_def)



lemma make_absolute_starts_http: "startswith (make_absolute s) ''http''"
  using BASE_URL_http [of s] BASE_URL_http [of "''/'' @ s"]
  by (simp add: make_absolute_def)












section \<open>Properties of deduplication\<close>

text \<open>The records collected so far stay in front of everything the loop adds.\<close>

lemma dedup_loop_acc:
  "dedup_loop jobs unique_jobs seen = unique_jobs @ dedup_loop jobs [] seen"
proof (induction jobs arbitrary: unique_jobs seen)
  case Nil
  show ?case by simp
next
  case (Cons j jobs)
  show ?case
  proof (cases "link j \<in> seen")
    case True
    then show ?thesis using Cons.IH [of unique_jobs seen] by simp
  next
    case False
    have "dedup_loop (j # jobs) unique_jobs seen
            = (unique_jobs @ [j]) @ dedup_loop jobs [] (insert (link j) seen)"
      using False Cons.IH [of "unique_jobs @ [j]" "insert (link j) seen"] by simp
    moreover have "dedup_loop (j # jobs) [] seen = [j] @ dedup_loop jobs [] (insert (link j) seen)"
      using False Cons.IH [of "[j]" "insert (link j) seen"] by simp
    ultimately show ?thesis by simp
  qed
qed

lemma dedup_loop_Cons:
  "dedup_loop (j # jobs) [] seen =
     (if link j \<in> seen then dedup_loop jobs [] seen
      else j # dedup_loop jobs [] (insert (link j) seen))"
  using dedup_loop_acc [of jobs "[j]" "insert (link j) seen"] by simp

lemma dedup_loop_filter:
  "filter (\<lambda>x. link x = l) (dedup_loop jobs [] seen) =
     (if l \<in> seen then []
      else case find (\<lambda>x. link x = l) jobs of None \<Rightarrow> [] | Some x \<Rightarrow> [x])"
proof (induction jobs arbitrary: seen)
  case Nil
  show ?case by simp
next
  case (Cons j jobs)
  show ?case
    by (simp add: dedup_loop_Cons Cons.IH del: dedup_loop.simps)
qed

lemma dedup_loop_subseq: "subseq (dedup_loop jobs [] seen) jobs"
proof (induction jobs arbitrary: seen)
  case Nil
  show ?case by simp
next
  case (Cons j jobs)
  have "subseq (dedup_loop jobs [] seen) (j # jobs)"
    using Cons.IH [of seen] by (rule list_emb_Cons)
  then show ?case
    by (simp add: dedup_loop_Cons Cons.IH del: dedup_loop.simps)
qed

lemma dedup_loop_links: "link ` set (dedup_loop jobs [] seen) = link ` set jobs - seen"
proof (induction jobs arbitrary: seen)
  case Nil
  show ?case by simp
next
  case (Cons j jobs)
  show ?case
    by (auto simp add: dedup_loop_Cons Cons.IH simp del: dedup_loop.simps)
qed

lemma dedup_loop_distinct: "distinct (map link (dedup_loop jobs [] seen))"
proof (induction jobs arbitrary: seen)
  case Nil
  show ?case by simp
next
  case (Cons j jobs)
  show ?case
    using dedup_loop_links [of jobs "insert (link j) seen"]
    by (auto simp add: dedup_loop_Cons Cons.IH simp del: dedup_loop.simps)
qed

text \<open>
  Claim C2. Deduplication looks at the link only. For every link \<open>l\<close>, the records
  with link \<open>l\<close> in the output are: none when the input has none, and otherwise
  exactly one, the first record of the input with that link. The output is a
  subsequence of the input, so the records kept are in their original order, and no two
  of them have the same link.
\<close>

theorem remove_duplicates_first_by_link:
  "filter (\<lambda>x. link x = l) (remove_duplicates jobs) =
     (case find (\<lambda>x. link x = l) jobs of None \<Rightarrow> [] | Some x \<Rightarrow> [x]) \<and>
   subseq (remove_duplicates jobs) jobs \<and>
   distinct (map link (remove_duplicates jobs))"
  by (simp add: remove_duplicates_def dedup_loop_filter dedup_loop_subseq dedup_loop_distinct)

section \<open>Properties of the feed builder\<close>

text \<open>The loop appends one item per job to the channel it is given.\<close>

lemma item_loop_eq:
  "item_loop now jobs (Element t a x cs) k =
     Element t a x (cs @ map (\<lambda>(i, j). make_item (now i) j) (enumerate k jobs))"
  by (induction jobs arbitrary: cs k) simp_all

lemma create_rss_feed_eq:
  "create_rss_feed now jobs =
     Element ''rss'' [(''xmlns:atom'', ''http://www.w3.org/2005/Atom''), (''version'', ''2.0'')] None
       [Element ''channel'' [] None
          (channel_head (now 0) @ map (\<lambda>(i, j). make_item (now i) j) (enumerate (Suc 0) jobs))]"
  by (simp add: create_rss_feed_def item_loop_eq channel_head_def)

lemma tag_make_item [simp]: "tag (make_item s j) = ''item''"
  by (simp add: make_item_def)

lemma children_make_item:
  "children (make_item s j) =
     [text_element ''title'' (title j), text_element ''link'' (link j),
      text_element ''description''
        (''Location: '' @ location j @ [CHR 0x0A] @ ''Posting Date: '' @ posting_date j),
      text_element ''pubDate'' s,
      Element ''guid'' [(''isPermaLink'', ''true'')] (Some (link j)) []]"
  by (simp add: make_item_def)

lemma findall_items_head:
  "findall (Element t a x (channel_head s @ cs)) ''item'' = filter (\<lambda>c. tag c = ''item'') cs"
  by (simp add: findall_def channel_head_def text_element_def)

lemma filter_items:
  "filter (\<lambda>c. tag c = ''item'') (map (\<lambda>(i, j). make_item (now i) j) xs)
     = map (\<lambda>(i, j). make_item (now i) j) xs"
  by (induction xs) auto

lemma findtext_make_item:
  "findtext (make_item s j) ''title'' = Some (title j)"
  "findtext (make_item s j) ''link'' = Some (link j)"
  "findtext (make_item s j) ''description'' =
     Some (''Location: '' @ location j @ [CHR 0x0A] @ ''Posting Date: '' @ posting_date j)"
  "findtext (make_item s j) ''pubDate'' = Some s"
  "findtext (make_item s j) ''guid'' = Some (link j)"
  by (simp_all add: findtext_def findall_def children_make_item text_element_def)

lemma items_of_feed:
  "findall (Element ''channel'' [] None
      (channel_head s @ map (\<lambda>(i, j). make_item (now i) j) (enumerate k jobs))) ''item''
   = map (\<lambda>(i, j). make_item (now i) j) (enumerate k jobs)"
  by (simp only: findall_items_head filter_items)


lemma xml_char_Char [simp]:
  "xml_char (Char b0 b1 b2 b3 b4 b5 b6 b7) =
     (b5 \<or> b6 \<or> b7 \<or>
      (\<not> b4 \<and> b3 \<and>
       ((b0 \<and> \<not> b1 \<and> \<not> b2) \<or> (\<not> b0 \<and> b1 \<and> \<not> b2) \<or> (b0 \<and> \<not> b1 \<and> b2))))"
  by (cases b0; cases b1; cases b2; cases b3; cases b4; cases b5; cases b6; cases b7)
     (simp_all add: xml_char_def)














text \<open>The time stamps are the clock readings, in the order they were made.\<close>

lemma pubDate_items:
  "map (\<lambda>item. findtext item ''pubDate'') (map (\<lambda>(i, j). make_item (now i) j) (enumerate k jobs))
     = map (\<lambda>k. Some (now k)) [k..<k + length jobs]"
proof (induction jobs arbitrary: k)
  case Nil
  show ?case by simp
next
  case (Cons j jobs)
  have u: "[k..<k + length (j # jobs)] = k # [Suc k..<Suc k + length jobs]"
    by (simp add: upt_conv_Cons del: upt_Suc)
  have "map (\<lambda>item. findtext item ''pubDate'')
          (map (\<lambda>(i, j). make_item (now i) j) (enumerate k (j # jobs)))
      = Some (now k) # map (\<lambda>item. findtext item ''pubDate'')
          (map (\<lambda>(i, j). make_item (now i) j) (enumerate (Suc k) jobs))"
    by (simp add: findtext_make_item)
  also have "\<dots> = Some (now k) # map (\<lambda>k. Some (now k)) [Suc k..<Suc k + length jobs]"
    by (simp only: Cons.IH)
  also have "\<dots> = map (\<lambda>k. Some (now k)) [k..<k + length (j # jobs)]"
    by (simp only: u list.map)
  finally show ?case .
qed

lemma feed_timestamps_eq:
  "feed_timestamps (create_rss_feed now jobs) = map (\<lambda>k. Some (now k)) [0..<Suc (length jobs)]"
proof -
  have head: "findtext (Element ''channel'' [] None (channel_head s @ cs)) ''lastBuildDate'' = Some s"
    for s cs
    by (simp add: findtext_def findall_def channel_head_def text_element_def)
  have rss: "findall (Element ''rss'' a x cs) ''channel'' = filter (\<lambda>c. tag c = ''channel'') cs"
    for a x cs
    by (simp add: findall_def)
  have "feed_timestamps (create_rss_feed now jobs)
      = Some (now 0) # map (\<lambda>item. findtext item ''pubDate'')
          (map (\<lambda>(i, j). make_item (now i) j) (enumerate (Suc 0) jobs))"
    by (simp add: feed_timestamps_def create_rss_feed_eq rss head items_of_feed
        del: map_map)
  also have "\<dots> = Some (now 0) # map (\<lambda>k. Some (now k)) [Suc 0..<Suc 0 + length jobs]"
    by (simp only: pubDate_items)
  also have "\<dots> = map (\<lambda>k. Some (now k)) (0 # [Suc 0..<Suc (length jobs)])"
    by (simp del: upt_Suc)
  also have "0 # [Suc 0..<Suc (length jobs)] = [0..<Suc (length jobs)]"
    by (simp add: upt_conv_Cons del: upt_Suc)
  finally show ?thesis .
qed

lemma items_cong:
  "(\<And>i. k \<le> i \<Longrightarrow> i < k + length jobs \<Longrightarrow> now i = now' i) \<Longrightarrow>
   map (\<lambda>(i, j). make_item (now i) j) (enumerate k jobs)
     = map (\<lambda>(i, j). make_item (now' i) j) (enumerate k jobs)"
  by (rule map_cong) (auto simp: in_set_enumerate_eq)

lemma create_rss_feed_cong:
  assumes "\<forall>k\<le>length jobs. now k = now' k"
  shows "create_rss_feed now jobs = create_rss_feed now' jobs"
proof -
  have "now 0 = now' 0"
    using assms by simp
  moreover have "map (\<lambda>(i, j). make_item (now i) j) (enumerate (Suc 0) jobs)
      = map (\<lambda>(i, j). make_item (now' i) j) (enumerate (Suc 0) jobs)"
    using assms by (intro items_cong) simp
  ultimately show ?thesis
    by (simp only: create_rss_feed_eq)
qed

text \<open>
  Claim C5, amended. The feed builder is a function of the job records and of the
  \<open>1 + n\<close> clock readings it makes for \<open>n\<close> records, and of nothing else: files and
  console are not among its arguments or results, and its input list is a value it
  cannot change. Two runs on the same records whose readings agree return the same
  document. The time stamps of the document are the readings in order:
  \<^verbatim>\<open>lastBuildDate\<close> is the first, the \<^verbatim>\<open>pubDate\<close> of the \<open>k\<close>-th item the one after
  the \<open>k\<close>-th. When all the readings are one time \<open>t\<close>, every time stamp is \<open>t\<close>.
\<close>

theorem create_rss_feed_clock_readings:
  "((\<forall>k\<le>length jobs. now k = now' k) \<longrightarrow>
      create_rss_feed now jobs = create_rss_feed now' jobs) \<and>
   feed_timestamps (create_rss_feed now jobs)
     = map (\<lambda>k. Some (now k)) [0..<Suc (length jobs)] \<and>
   ((\<forall>k\<le>length jobs. now k = t) \<longrightarrow>
      feed_timestamps (create_rss_feed now jobs) = replicate (Suc (length jobs)) (Some t))"
proof (intro conjI impI)
  assume "\<forall>k\<le>length jobs. now k = now' k"
  then show "create_rss_feed now jobs = create_rss_feed now' jobs"
    by (rule create_rss_feed_cong)
next
  show "feed_timestamps (create_rss_feed now jobs)
     = map (\<lambda>k. Some (now k)) [0..<Suc (length jobs)]"
    by (rule feed_timestamps_eq)
next
  assume same: "\<forall>k\<le>length jobs. now k = t"
  have "map (\<lambda>k. Some (now k)) [0..<Suc (length jobs)]
      = map (\<lambda>k. Some t) [0..<Suc (length jobs)]"
    using same by (intro map_cong) auto
  also have "\<dots> = replicate (Suc (length jobs)) (Some t)"
    by (simp add: map_replicate_const del: upt_Suc replicate_Suc)
  finally show "feed_timestamps (create_rss_feed now jobs) = replicate (Suc (length jobs)) (Some t)"
    by (simp only: feed_timestamps_eq)
qed

theorem create_rss_feed_clock_readings_witness:
  "(\<lambda>k. if k \<le> 1 then ''Wed, 04 Nov 2026 12:00:00 GMT'' else ''later'') (0::nat)
     = ''Wed, 04 Nov 2026 12:00:00 GMT'' \<and>
   (\<lambda>k. if k \<le> 1 then ''Wed, 04 Nov 2026 12:00:00 GMT'' else ''later'') (1::nat)
     = ''Wed, 04 Nov 2026 12:00:00 GMT'' \<and>
   create_rss_feed (\<lambda>k. ''Wed, 04 Nov 2026 12:00:00 GMT'')
      [\<lparr>title = ''Analyst'', link = ''https://jobs.ebrd.com/jobs/123'',
        location = ''London'', posting_date = ''2024-01-01''\<rparr>]
    = create_rss_feed (\<lambda>k. if k \<le> 1 then ''Wed, 04 Nov 2026 12:00:00 GMT'' else ''later'')
      [\<lparr>title = ''Analyst'', link = ''https://jobs.ebrd.com/jobs/123'',
        location = ''London'', posting_date = ''2024-01-01''\<rparr>] \<and>
   feed_timestamps (create_rss_feed (\<lambda>k. ''Wed, 04 Nov 2026 12:00:00 GMT'')
      [\<lparr>title = ''Analyst'', link = ''https://jobs.ebrd.com/jobs/123'',
        location = ''London'', posting_date = ''2024-01-01''\<rparr>])
    = [Some ''Wed, 04 Nov 2026 12:00:00 GMT'', Some ''Wed, 04 Nov 2026 12:00:00 GMT'']"
proof -
  let ?j = "\<lparr>title = ''Analyst'', link = ''https://jobs.ebrd.com/jobs/123'',
        location = ''London'', posting_date = ''2024-01-01''\<rparr>"
  let ?t = "''Wed, 04 Nov 2026 12:00:00 GMT''"
  let ?now = "\<lambda>k::nat. ?t"
  let ?now' = "\<lambda>k::nat. if k \<le> 1 then ?t else ''later''"
  have h1: "\<forall>k\<le>length [?j]. ?now k = ?now' k"
    by simp
  have h2: "\<forall>k\<le>length [?j]. ?now k = ?t"
    by simp
  note inst = create_rss_feed_clock_readings [of "[?j]" ?now ?now' ?t]
  from inst h1 have r1: "create_rss_feed ?now [?j] = create_rss_feed ?now' [?j]"
    by blast
  from inst h2 have "feed_timestamps (create_rss_feed ?now [?j]) = replicate (Suc (length [?j])) (Some ?t)"
    by blast
  then have r2: "feed_timestamps (create_rss_feed ?now [?j]) = [Some ?t, Some ?t]"
    by simp
  from r1 r2 show ?thesis by simp
qed

text \<open>
  Claim C5 as stated says that the \<^verbatim>\<open>pubDate\<close> of every item and the
  \<^verbatim>\<open>lastBuildDate\<close> of the channel are one and the same run time. The code reads the
  clock anew at line 158 and at line 181 for each item, so they differ as soon as the
  clock moves to the next second between two readings: here the first reading is
  23:59:59 and the second 00:00:00.
\<close>

theorem create_rss_feed_single_time_counterexample:
  "feed_timestamps
     (create_rss_feed
        (\<lambda>k. if k = 0 then ''Wed, 04 Nov 2026 23:59:59 GMT''
             else ''Thu, 05 Nov 2026 00:00:00 GMT'')
        [\<lparr>title = ''Analyst'', link = ''https://jobs.ebrd.com/jobs/123'',
          location = ''London'', posting_date = ''2024-01-01''\<rparr>])
     = [Some ''Wed, 04 Nov 2026 23:59:59 GMT'', Some ''Thu, 05 Nov 2026 00:00:00 GMT''] \<and>
   \<not> (\<exists>t. \<forall>s \<in> set (feed_timestamps
     (create_rss_feed
        (\<lambda>k. if k = 0 then ''Wed, 04 Nov 2026 23:59:59 GMT''
             else ''Thu, 05 Nov 2026 00:00:00 GMT'')
        [\<lparr>title = ''Analyst'', link = ''https://jobs.ebrd.com/jobs/123'',
          location = ''London'', posting_date = ''2024-01-01''\<rparr>])). s = Some t)"
proof -
  let ?feed = "create_rss_feed
        (\<lambda>k. if k = 0 then ''Wed, 04 Nov 2026 23:59:59 GMT''
             else ''Thu, 05 Nov 2026 00:00:00 GMT'')
        [\<lparr>title = ''Analyst'', link = ''https://jobs.ebrd.com/jobs/123'',
          location = ''London'', posting_date = ''2024-01-01''\<rparr>]"
  have ts: "feed_timestamps ?feed
      = [Some ''Wed, 04 Nov 2026 23:59:59 GMT'', Some ''Thu, 05 Nov 2026 00:00:00 GMT'']"
    by (simp add: feed_timestamps_def create_rss_feed_def make_item_def text_element_def
        findall_def findtext_def)
  have "\<not> (\<exists>t. \<forall>s \<in> set (feed_timestamps ?feed). s = Some t)"
    unfolding ts by simp
  with ts show ?thesis by blast
qed

section \<open>Properties of the extractor\<close>

text \<open>The row body and the row loop.\<close>

lemma make_absolute_nonempty: "make_absolute s \<noteq> []"
  using make_absolute_starts_http [of s] by (auto simp: startswith_def)

lemma make_absolute_empty: "make_absolute [] = ''https://jobs.ebrd.com/''"
  by (simp add: make_absolute_def startswith_def BASE_URL_def)

lemma find_class_None:
  "find_class t n c = None \<longleftrightarrow> (\<forall>x \<in> set (descendants t). \<not> (is_tag n x \<and> has_class c x))"
proof -
  have "find_class t n c = None \<longleftrightarrow> find_all_class t n c = []"
    by (simp add: find_class_def split: list.split)
  then show ?thesis
    by (simp add: find_all_class_def filter_empty_conv)
qed

lemma parse_row_no_link: "find_tag row ''a'' = None \<Longrightarrow> parse_row row = Skipped"
  by (simp add: parse_row_def)

lemma parse_row_AppendedD:
  assumes "parse_row row = Appended j"
  shows "\<exists>a. find_tag row ''a'' = Some a \<and> title j = get_text_strip a \<and> title j \<noteq> []
           \<and> link j \<noteq> [] \<and> startswith (link j) ''http''"
  using assms make_absolute_nonempty make_absolute_starts_http
  by (auto simp: parse_row_def Let_def split: option.splits attr_value.splits if_splits)

lemma parse_row_no_title:
  "find_tag row ''a'' = Some a \<Longrightarrow> get_text_strip a = [] \<Longrightarrow> parse_row row \<noteq> Appended j"
  by (auto dest: parse_row_AppendedD)

lemma parse_row_no_href:
  assumes "find_tag row ''a'' = Some a" and "get_text_strip a \<noteq> []"
    and "tag_get a ''href'' = None \<or> tag_get a ''href'' = Some (AStr [])"
  shows "\<exists>j. parse_row row = Appended j \<and> title j = get_text_strip a
            \<and> link j = ''https://jobs.ebrd.com/''"
  using assms
  by (auto simp: parse_row_def Let_def make_absolute_empty)

lemma row_loop_fst:
  "fst (row_loop rows all_jobs out) =
     all_jobs @ concat (map (\<lambda>r. case parse_row r of Appended j \<Rightarrow> [j] | _ \<Rightarrow> []) rows)"
  by (induction rows arbitrary: all_jobs out) (simp_all split: row_result.split)

lemma row_loop_links_only:
  "row_loop rows all_jobs out
     = row_loop (filter (\<lambda>r. find_tag r ''a'' \<noteq> None) rows) all_jobs out"
  by (induction rows arbitrary: all_jobs out)
     (auto simp: parse_row_no_link split: row_result.split)

lemma row_loop_member:
  "j \<in> set (fst (row_loop rows [] out)) \<Longrightarrow> \<exists>r \<in> set rows. parse_row r = Appended j"
  by (auto simp: row_loop_fst split: row_result.splits)

lemma select_rows_tr: "r \<in> set (select_rows table) \<Longrightarrow> is_tag ''tr'' r"
  by (auto simp: select_rows_def Let_def find_all_class_def find_all_def split: if_splits)

lemma select_rows_fallback:
  "find_all_class table ''tr'' ''data-row'' = [] \<Longrightarrow> r \<in> set (select_rows table) \<Longrightarrow>
     find_tag r ''a'' \<noteq> None"
  by (simp add: select_rows_def)

lemma parse_page_member:
  assumes "j \<in> set (fst (parse_page soup))"
  shows "\<exists>row. is_tag ''tr'' row \<and> parse_row row = Appended j"
proof (cases "find_class soup ''table'' ''searchResults''")
  case None
  with assms show ?thesis by (simp add: parse_page_def Let_def)
next
  case (Some table)
  with assms have "j \<in> set (fst (row_loop (select_rows table) []
      [Line ''[OK] Job table found, parsing jobs...'', FoundRows (length (select_rows table))]))"
    by (simp add: parse_page_def Let_def)
  then obtain r where "r \<in> set (select_rows table)" and "parse_row r = Appended j"
    by (blast dest: row_loop_member)
  then show ?thesis by (blast dest: select_rows_tr)
qed

lemma parse_page_no_table:
  assumes "find_class soup ''table'' ''searchResults'' = None"
  shows "parse_page soup =
     ([], [Line ''ERROR: Could not find job listings table'',
           FoundTables (length (find_all soup ''table''))]
          @ (if find_all soup ''table'' \<noteq> []
             then [TableClasses (map (\<lambda>t. tag_get t ''class'') (find_all soup ''table''))]
             else []))"
  using assms by (simp add: parse_page_def Let_def)

text \<open>The extractor as a whole: what it returns, prints and writes.\<close>

lemma fetch_jobs_Inr:
  "fst (fetch_jobs_with_selenium e w) = Inr jobs \<Longrightarrow>
     starts e \<and> loads e \<and> jobs = fst (parse_page (parser e (page_source e)))"
  by (auto simp: fetch_jobs_with_selenium_def Let_def split: if_splits prod.splits)

lemma fetch_jobs_ok:
  assumes "starts e" and "loads e"
  shows "fetch_jobs_with_selenium e w =
     (Inr (fst (parse_page (parser e (page_source e)))),
      w\<lparr>files := (files w)(''debug_page.html'' \<mapsto> page_source e),
        console := console w @
          [Line ''Starting Chrome browser (headless mode)...'',
           Line ''Loading EBRD jobs page...'',
           Line ''Waiting for page content to load...'',
           if marker_found e then Line ''[OK] Job listings table found'' else TimeoutWarning,
           Line ''[OK] Saved debug HTML to debug_page.html'']
          @ snd (parse_page (parser e (page_source e)))
          @ [Line ''[OK] Browser closed'']\<rparr>)"
  using assms
  by (simp add: fetch_jobs_with_selenium_def Let_def print_def split: prod.splits)

lemma fetch_jobs_files:
  "f \<noteq> ''debug_page.html'' \<Longrightarrow> files (snd (fetch_jobs_with_selenium e w)) f = files w f"
  by (simp add: fetch_jobs_with_selenium_def Let_def print_def split: prod.splits)

lemma fetch_jobs_clock_reads:
  "clock_reads (snd (fetch_jobs_with_selenium e w)) = clock_reads w"
  by (simp add: fetch_jobs_with_selenium_def Let_def print_def split: prod.splits)

text \<open>Records that all have one link collapse to the first of them.\<close>

lemma dedup_loop_all_seen:
  "\<forall>j \<in> set jobs. link j \<in> seen \<Longrightarrow> dedup_loop jobs [] seen = []"
  by (induction jobs) simp_all

lemma remove_duplicates_same_link:
  assumes "jobs \<noteq> []" and "\<forall>j \<in> set jobs. link j = l"
  shows "remove_duplicates jobs = [hd jobs]"
proof (cases jobs)
  case Nil
  with assms show ?thesis by simp
next
  case (Cons j js)
  with assms have "\<forall>x \<in> set js. link x \<in> insert (link j) {}"
    by simp
  then have "dedup_loop js [] (insert (link j) {}) = []"
    by (rule dedup_loop_all_seen)
  then show ?thesis
    using Cons by (simp add: remove_duplicates_def dedup_loop_Cons del: dedup_loop.simps)
qed

text \<open>
  Claim C4. Every record in the list that the extractor returns has a non-empty title
  and a non-empty link; and a row whose first hyperlink has no text after stripping
  never gives a record.
\<close>

theorem extracted_records_nonempty:
  "(fst (fetch_jobs_with_selenium e w) = Inr jobs \<longrightarrow>
      (\<forall>j \<in> set jobs. title j \<noteq> [] \<and> link j \<noteq> [])) \<and>
   (find_tag row ''a'' = Some a \<and> get_text_strip a = [] \<longrightarrow>
      (\<forall>j. parse_row row \<noteq> Appended j))"
proof (intro conjI impI ballI allI)
  fix j
  assume "fst (fetch_jobs_with_selenium e w) = Inr jobs" and "j \<in> set jobs"
  then have "j \<in> set (fst (parse_page (parser e (page_source e))))"
    by (auto dest: fetch_jobs_Inr)
  then obtain row where "parse_row row = Appended j"
    by (blast dest: parse_page_member)
  then show "title j \<noteq> []" and "link j \<noteq> []"
    by (auto dest: parse_row_AppendedD)
next
  fix j
  assume "find_tag row ''a'' = Some a \<and> get_text_strip a = []"
  then show "parse_row row \<noteq> Appended j"
    by (simp add: parse_row_no_title)
qed

theorem extracted_records_nonempty_witness:
  "fst (fetch_jobs_with_selenium (example_env results_page) example_world) =
     Inr [\<lparr>title = ''Analyst'', link = ''https://jobs.ebrd.com/jobs/123'',
            location = ''London'', posting_date = ''2024-01-01''\<rparr>,
          \<lparr>title = ''Banker'', link = ''https://jobs.ebrd.com/'',
            location = ''Not specified'', posting_date = ''Not specified''\<rparr>,
          \<lparr>title = ''Banker'', link = ''https://jobs.ebrd.com/'',
            location = ''Not specified'', posting_date = ''Not specified''\<rparr>] \<and>
   find_tag untitled_row ''a''
     = Some (Tag ''a'' [(''href'', AStr ''/jobs/9'')] [NavigableString '' '']) \<and>
   get_text_strip (Tag ''a'' [(''href'', AStr ''/jobs/9'')] [NavigableString '' '']) = [] \<and>
   parse_row untitled_row = Skipped \<and>
   (\<forall>j. parse_row untitled_row \<noteq> Appended j) \<and>
   title \<lparr>title = ''Banker'', link = ''https://jobs.ebrd.com/'',
            location = ''Not specified'', posting_date = ''Not specified''\<rparr> \<noteq> [] \<and>
   link \<lparr>title = ''Banker'', link = ''https://jobs.ebrd.com/'',
            location = ''Not specified'', posting_date = ''Not specified''\<rparr> \<noteq> [] \<and>
   untitled_row \<in> set (select_rows (Tag ''table'' [(''class'', AList [''searchResults''])]
          [header_row, linkless_row, analyst_row, untitled_row, banker_row, banker_row]))"
proof -
  let ?jobs = "[\<lparr>title = ''Analyst'', link = ''https://jobs.ebrd.com/jobs/123'',
            location = ''London'', posting_date = ''2024-01-01''\<rparr>,
          \<lparr>title = ''Banker'', link = ''https://jobs.ebrd.com/'',
            location = ''Not specified'', posting_date = ''Not specified''\<rparr>,
          \<lparr>title = ''Banker'', link = ''https://jobs.ebrd.com/'',
            location = ''Not specified'', posting_date = ''Not specified''\<rparr>]"
  let ?a = "Tag ''a'' [(''href'', AStr ''/jobs/9'')] [NavigableString '' '']"
  have h1: "fst (fetch_jobs_with_selenium (example_env results_page) example_world) = Inr ?jobs"
    by code_simp
  have h2: "find_tag untitled_row ''a'' = Some ?a"
    by code_simp
  have h3: "get_text_strip ?a = []"
    by code_simp
  have h4: "parse_row untitled_row = Skipped"
    by code_simp
  have h5: "untitled_row \<in> set (select_rows (Tag ''table'' [(''class'', AList [''searchResults''])]
          [header_row, linkless_row, analyst_row, untitled_row, banker_row, banker_row]))"
    by code_simp
  note inst = extracted_records_nonempty
    [of "example_env results_page" example_world ?jobs untitled_row ?a]
  from inst h1 have "\<forall>j \<in> set ?jobs. title j \<noteq> [] \<and> link j \<noteq> []"
    by blast
  then have r1: "title \<lparr>title = ''Banker'', link = ''https://jobs.ebrd.com/'',
            location = ''Not specified'', posting_date = ''Not specified''\<rparr> \<noteq> []"
    and r2: "link \<lparr>title = ''Banker'', link = ''https://jobs.ebrd.com/'',
            location = ''Not specified'', posting_date = ''Not specified''\<rparr> \<noteq> []"
    by simp_all
  from inst h2 h3 have r3: "\<forall>j. parse_row untitled_row \<noteq> Appended j"
    by blast
  from h1 h2 h3 h4 h5 r1 r2 r3 show ?thesis by blast
qed

text \<open>
  Claim C8. A row without a hyperlink never becomes a record. The row body skips it at
  line 100; when no row has the class \<^verbatim>\<open>data-row\<close>, the fallback selection holds only
  rows with a hyperlink; the row loop gives the same records and the same output on any
  list of rows as on its rows with a hyperlink; and every record that the page yields
  is the record of a \<^verbatim>\<open>tr\<close> with a hyperlink.
\<close>

theorem rows_without_link_give_no_record:
  "(find_tag row ''a'' = None \<longrightarrow> parse_row row = Skipped) \<and>
   (find_all_class table ''tr'' ''data-row'' = [] \<longrightarrow>
      (\<forall>r \<in> set (select_rows table). find_tag r ''a'' \<noteq> None)) \<and>
   row_loop rows all_jobs out
     = row_loop (filter (\<lambda>r. find_tag r ''a'' \<noteq> None) rows) all_jobs out \<and>
   (\<forall>j \<in> set (fst (parse_page soup)).
      \<exists>r. is_tag ''tr'' r \<and> find_tag r ''a'' \<noteq> None \<and> parse_row r = Appended j)"
proof (intro conjI impI ballI)
  assume "find_tag row ''a'' = None"
  then show "parse_row row = Skipped"
    by (rule parse_row_no_link)
next
  fix r
  assume "find_all_class table ''tr'' ''data-row'' = []" and "r \<in> set (select_rows table)"
  then show "find_tag r ''a'' \<noteq> None"
    by (rule select_rows_fallback)
next
  show "row_loop rows all_jobs out
     = row_loop (filter (\<lambda>r. find_tag r ''a'' \<noteq> None) rows) all_jobs out"
    by (rule row_loop_links_only)
next
  fix j
  assume "j \<in> set (fst (parse_page soup))"
  then obtain r where r: "is_tag ''tr'' r" "parse_row r = Appended j"
    by (blast dest: parse_page_member)
  then have "find_tag r ''a'' \<noteq> None"
    by (auto dest: parse_row_AppendedD)
  with r show "\<exists>r. is_tag ''tr'' r \<and> find_tag r ''a'' \<noteq> None \<and> parse_row r = Appended j"
    by blast
qed

theorem rows_without_link_give_no_record_witness:
  "find_tag linkless_row ''a'' = None \<and> parse_row linkless_row = Skipped \<and>
   find_all_class fallback_table ''tr'' ''data-row'' = [] \<and>
   find_all fallback_table ''tr'' = [header_row, plain_row] \<and>
   select_rows fallback_table = [plain_row] \<and>
   find_tag plain_row ''a'' \<noteq> None \<and>
   results_page = Tag ''[document]'' []
       [Tag ''table'' [(''class'', AList [''searchResults''])]
          [header_row, linkless_row, analyst_row, untitled_row, banker_row, banker_row]] \<and>
   linkless_row \<in> set (select_rows (Tag ''table'' [(''class'', AList [''searchResults''])]
          [header_row, linkless_row, analyst_row, untitled_row, banker_row, banker_row])) \<and>
   fst (parse_page results_page) =
     [\<lparr>title = ''Analyst'', link = ''https://jobs.ebrd.com/jobs/123'',
        location = ''London'', posting_date = ''2024-01-01''\<rparr>,
      \<lparr>title = ''Banker'', link = ''https://jobs.ebrd.com/'',
        location = ''Not specified'', posting_date = ''Not specified''\<rparr>,
      \<lparr>title = ''Banker'', link = ''https://jobs.ebrd.com/'',
        location = ''Not specified'', posting_date = ''Not specified''\<rparr>] \<and>
   (\<exists>r. is_tag ''tr'' r \<and> find_tag r ''a'' \<noteq> None \<and>
        parse_row r = Appended \<lparr>title = ''Analyst'', link = ''https://jobs.ebrd.com/jobs/123'',
        location = ''London'', posting_date = ''2024-01-01''\<rparr>)"
proof -
  let ?analyst = "\<lparr>title = ''Analyst'', link = ''https://jobs.ebrd.com/jobs/123'',
        location = ''London'', posting_date = ''2024-01-01''\<rparr>"
  let ?banker = "\<lparr>title = ''Banker'', link = ''https://jobs.ebrd.com/'',
        location = ''Not specified'', posting_date = ''Not specified''\<rparr>"
  have h1: "find_tag linkless_row ''a'' = None"
    by code_simp
  have h2: "find_all_class fallback_table ''tr'' ''data-row'' = []"
    by code_simp
  have h3: "find_all fallback_table ''tr'' = [header_row, plain_row]"
    by code_simp
  have h4: "select_rows fallback_table = [plain_row]"
    by code_simp
  have h5: "linkless_row \<in> set (select_rows (Tag ''table'' [(''class'', AList [''searchResults''])]
          [header_row, linkless_row, analyst_row, untitled_row, banker_row, banker_row]))"
    by code_simp
  have h6: "fst (parse_page results_page) = [?analyst, ?banker, ?banker]"
    by code_simp
  have h7: "results_page = Tag ''[document]'' []
       [Tag ''table'' [(''class'', AList [''searchResults''])]
          [header_row, linkless_row, analyst_row, untitled_row, banker_row, banker_row]]"
    by (rule results_page_def)
  note inst = rows_without_link_give_no_record
    [of linkless_row fallback_table "[linkless_row]" "[]" "[]" results_page]
  from inst h1 have r1: "parse_row linkless_row = Skipped"
    by blast
  from inst h2 have "\<forall>r \<in> set (select_rows fallback_table). find_tag r ''a'' \<noteq> None"
    by blast
  then have r2: "find_tag plain_row ''a'' \<noteq> None"
    by (simp add: h4)
  from inst have "\<forall>j \<in> set (fst (parse_page results_page)).
      \<exists>r. is_tag ''tr'' r \<and> find_tag r ''a'' \<noteq> None \<and> parse_row r = Appended j"
    by blast
  then have r3: "\<exists>r. is_tag ''tr'' r \<and> find_tag r ''a'' \<noteq> None \<and> parse_row r = Appended ?analyst"
    by (simp add: h6)
  from h1 h2 h3 h4 h5 h6 h7 r1 r2 r3 show ?thesis by blast
qed

text \<open>
  Claim C9. When the session starts, the page loads and no \<^verbatim>\<open>table\<close> of the parsed
  page has the class \<^verbatim>\<open>searchResults\<close>, the extractor returns the empty list, not an
  exception. On the way it prints the error line, the number of tables found and, when
  there is at least one table, the classes of the tables; the browser is closed as on
  every other way out.
\<close>

theorem no_results_table:
  "starts e \<and> loads e \<and>
   (\<forall>t \<in> set (descendants (parser e (page_source e))).
      \<not> (is_tag ''table'' t \<and> has_class ''searchResults'' t)) \<longrightarrow>
   fst (fetch_jobs_with_selenium e w) = Inr [] \<and>
   console (snd (fetch_jobs_with_selenium e w)) =
     console w @
     [Line ''Starting Chrome browser (headless mode)...'',
      Line ''Loading EBRD jobs page...'',
      Line ''Waiting for page content to load...'',
      if marker_found e then Line ''[OK] Job listings table found'' else TimeoutWarning,
      Line ''[OK] Saved debug HTML to debug_page.html'',
      Line ''ERROR: Could not find job listings table'',
      FoundTables (length (find_all (parser e (page_source e)) ''table''))]
     @ (if find_all (parser e (page_source e)) ''table'' \<noteq> []
        then [TableClasses (map (\<lambda>t. tag_get t ''class'')
                (find_all (parser e (page_source e)) ''table''))]
        else [])
     @ [Line ''[OK] Browser closed'']"
proof (intro impI)
  let ?soup = "parser e (page_source e)"
  assume h: "starts e \<and> loads e \<and>
   (\<forall>t \<in> set (descendants ?soup). \<not> (is_tag ''table'' t \<and> has_class ''searchResults'' t))"
  then have "find_class ?soup ''table'' ''searchResults'' = None"
    by (simp add: find_class_None)
  then have page: "parse_page ?soup =
     ([], [Line ''ERROR: Could not find job listings table'',
           FoundTables (length (find_all ?soup ''table''))]
          @ (if find_all ?soup ''table'' \<noteq> []
             then [TableClasses (map (\<lambda>t. tag_get t ''class'') (find_all ?soup ''table''))]
             else []))"
    by (rule parse_page_no_table)
  from h have "starts e" and "loads e"
    by simp_all
  then show "fst (fetch_jobs_with_selenium e w) = Inr [] \<and>
   console (snd (fetch_jobs_with_selenium e w)) =
     console w @
     [Line ''Starting Chrome browser (headless mode)...'',
      Line ''Loading EBRD jobs page...'',
      Line ''Waiting for page content to load...'',
      if marker_found e then Line ''[OK] Job listings table found'' else TimeoutWarning,
      Line ''[OK] Saved debug HTML to debug_page.html'',
      Line ''ERROR: Could not find job listings table'',
      FoundTables (length (find_all ?soup ''table''))]
     @ (if find_all ?soup ''table'' \<noteq> []
        then [TableClasses (map (\<lambda>t. tag_get t ''class'') (find_all ?soup ''table''))]
        else [])
     @ [Line ''[OK] Browser closed'']"
    by (simp add: fetch_jobs_ok page)
qed

theorem no_results_table_witness:
  "starts (example_env other_page) \<and> loads (example_env other_page) \<and>
   parser (example_env other_page) (page_source (example_env other_page)) = other_page \<and>
   descendants other_page
     = [Tag ''table'' [(''class'', AList [''layout''])] [header_row], header_row,
        Tag ''th'' [] [NavigableString ''Title''], NavigableString ''Title'',
        Tag ''table'' [] []] \<and>
   find_class other_page ''table'' ''searchResults'' = None \<and>
   fst (fetch_jobs_with_selenium (example_env other_page) example_world) = Inr [] \<and>
   console (snd (fetch_jobs_with_selenium (example_env other_page) example_world)) =
     [Line ''Starting Chrome browser (headless mode)...'',
      Line ''Loading EBRD jobs page...'',
      Line ''Waiting for page content to load...'',
      Line ''[OK] Job listings table found'',
      Line ''[OK] Saved debug HTML to debug_page.html'',
      Line ''ERROR: Could not find job listings table'',
      FoundTables 2,
      TableClasses [Some (AList [''layout'']), None],
      Line ''[OK] Browser closed'']"
proof -
  let ?e = "example_env other_page"
  have h1: "starts ?e" and h2: "loads ?e" and h3: "parser ?e (page_source ?e) = other_page"
    by (simp_all add: example_env_def)
  have h4: "descendants other_page
     = [Tag ''table'' [(''class'', AList [''layout''])] [header_row], header_row,
        Tag ''th'' [] [NavigableString ''Title''], NavigableString ''Title'',
        Tag ''table'' [] []]"
    by code_simp
  have h5: "find_class other_page ''table'' ''searchResults'' = None"
    by code_simp
  then have h6: "\<forall>t \<in> set (descendants (parser ?e (page_source ?e))).
      \<not> (is_tag ''table'' t \<and> has_class ''searchResults'' t)"
    by (simp only: h3 find_class_None)
  have ev1: "length (find_all other_page ''table'') = 2"
    by code_simp
  have ev2: "find_all other_page ''table'' \<noteq> []"
    by code_simp
  have ev3: "map (\<lambda>t. tag_get t ''class'') (find_all other_page ''table'')
      = [Some (AList [''layout'']), None]"
    by code_simp
  have ev4: "marker_found ?e" and ev5: "console example_world = []"
    by (simp_all add: example_env_def example_world_def)
  from no_results_table [of ?e example_world] h1 h2 h6
  have "fst (fetch_jobs_with_selenium ?e example_world) = Inr [] \<and>
    console (snd (fetch_jobs_with_selenium ?e example_world)) =
     console example_world @
     [Line ''Starting Chrome browser (headless mode)...'',
      Line ''Loading EBRD jobs page...'',
      Line ''Waiting for page content to load...'',
      if marker_found ?e then Line ''[OK] Job listings table found'' else TimeoutWarning,
      Line ''[OK] Saved debug HTML to debug_page.html'',
      Line ''ERROR: Could not find job listings table'',
      FoundTables (length (find_all (parser ?e (page_source ?e)) ''table''))]
     @ (if find_all (parser ?e (page_source ?e)) ''table'' \<noteq> []
        then [TableClasses (map (\<lambda>t. tag_get t ''class'')
                (find_all (parser ?e (page_source ?e)) ''table''))]
        else [])
     @ [Line ''[OK] Browser closed'']"
    by blast
  then have r: "fst (fetch_jobs_with_selenium ?e example_world) = Inr [] \<and>
    console (snd (fetch_jobs_with_selenium ?e example_world)) =
     [Line ''Starting Chrome browser (headless mode)...'',
      Line ''Loading EBRD jobs page...'',
      Line ''Waiting for page content to load...'',
      Line ''[OK] Job listings table found'',
      Line ''[OK] Saved debug HTML to debug_page.html'',
      Line ''ERROR: Could not find job listings table'',
      FoundTables 2,
      TableClasses [Some (AList [''layout'']), None],
      Line ''[OK] Browser closed'']"
    by (simp only: h3 ev1 ev2 ev3 ev4 ev5 if_True not_False_eq_True append.simps)
  from h1 h2 h3 h4 h5 r show ?thesis by blast
qed

text \<open>
  Claim C10. A row whose first hyperlink has a non-empty stripped text and no
  \<^verbatim>\<open>href\<close>, or an empty one, is not discarded: it gives a record with that title and
  the link \<^verbatim>\<open>https://jobs.ebrd.com/\<close>. A non-empty list of such rows gives one record
  per row, and deduplication leaves exactly one of them, the record of the first row.
\<close>

theorem row_without_href:
  "(find_tag row ''a'' = Some a \<and> get_text_strip a \<noteq> [] \<and>
    (tag_get a ''href'' = None \<or> tag_get a ''href'' = Some (AStr [])) \<longrightarrow>
      (\<exists>j. parse_row row = Appended j \<and> title j = get_text_strip a \<and>
           link j = ''https://jobs.ebrd.com/'')) \<and>
   (rows \<noteq> [] \<and>
    (\<forall>r \<in> set rows. \<exists>a. find_tag r ''a'' = Some a \<and> get_text_strip a \<noteq> [] \<and>
        (tag_get a ''href'' = None \<or> tag_get a ''href'' = Some (AStr []))) \<longrightarrow>
      length (fst (row_loop rows [] out)) = length rows \<and>
      (\<exists>j. remove_duplicates (fst (row_loop rows [] out)) = [j] \<and>
           parse_row (hd rows) = Appended j \<and> link j = ''https://jobs.ebrd.com/''))"
proof (intro conjI impI)
  assume "find_tag row ''a'' = Some a \<and> get_text_strip a \<noteq> [] \<and>
    (tag_get a ''href'' = None \<or> tag_get a ''href'' = Some (AStr []))"
  then show "\<exists>j. parse_row row = Appended j \<and> title j = get_text_strip a \<and>
           link j = ''https://jobs.ebrd.com/''"
    by (intro parse_row_no_href) simp_all
next
  assume h: "rows \<noteq> [] \<and>
    (\<forall>r \<in> set rows. \<exists>a. find_tag r ''a'' = Some a \<and> get_text_strip a \<noteq> [] \<and>
        (tag_get a ''href'' = None \<or> tag_get a ''href'' = Some (AStr [])))"
  let ?L = "''https://jobs.ebrd.com/''"
  have each: "\<exists>j. parse_row r = Appended j \<and> link j = ?L" if "r \<in> set rows" for r
    using h that parse_row_no_href by blast
  define job_of where "job_of = (\<lambda>r. case parse_row r of Appended j \<Rightarrow> [j] | _ \<Rightarrow> [])"
  have one: "\<exists>j. job_of r = [j] \<and> parse_row r = Appended j \<and> link j = ?L"
    if "r \<in> set rows" for r
    using each [OF that] by (auto simp: job_of_def)
  have jobs: "fst (row_loop rows [] out) = concat (map job_of rows)"
    by (simp add: row_loop_fst job_of_def)
  have len: "length (concat (map job_of rs)) = length rs" if "set rs \<subseteq> set rows" for rs
    using that
  proof (induction rs)
    case Nil
    show ?case by simp
  next
    case (Cons r rs)
    then obtain j where "job_of r = [j]" using one [of r] by auto
    with Cons show ?case by simp
  qed
  have links: "\<forall>j \<in> set (concat (map job_of rows)). link j = ?L"
    using one by fastforce
  from h obtain r rs where rows: "rows = r # rs"
    by (cases rows) auto
  then obtain j where j: "job_of r = [j]" "parse_row r = Appended j" "link j = ?L"
    using one [of r] by auto
  have ne: "concat (map job_of rows) \<noteq> []" and hd: "hd (concat (map job_of rows)) = j"
    using rows j by simp_all
  have "remove_duplicates (concat (map job_of rows)) = [j]"
    using remove_duplicates_same_link [OF ne links] hd by simp
  then have d1: "remove_duplicates (fst (row_loop rows [] out)) = [j]"
    by (simp only: jobs)
  have d2: "parse_row (hd rows) = Appended j"
    using j rows by simp
  have d3: "length (fst (row_loop rows [] out)) = length rows"
    using len [of rows] by (simp add: jobs)
  from d3 show "length (fst (row_loop rows [] out)) = length rows" .
  from d1 d2 j show "\<exists>j. remove_duplicates (fst (row_loop rows [] out)) = [j] \<and>
           parse_row (hd rows) = Appended j \<and> link j = ''https://jobs.ebrd.com/''"
    by blast
qed

theorem row_without_href_witness:
  "find_tag banker_row ''a'' = Some (Tag ''a'' [] [NavigableString ''Banker'']) \<and>
   get_text_strip (Tag ''a'' [] [NavigableString ''Banker'']) = ''Banker'' \<and>
   tag_get (Tag ''a'' [] [NavigableString ''Banker'']) ''href'' = None \<and>
   parse_row banker_row = Appended \<lparr>title = ''Banker'', link = ''https://jobs.ebrd.com/'',
        location = ''Not specified'', posting_date = ''Not specified''\<rparr> \<and>
   length (fst (row_loop [banker_row, banker_row] [] [])) = 2 \<and>
   remove_duplicates (fst (row_loop [banker_row, banker_row] [] []))
     = [\<lparr>title = ''Banker'', link = ''https://jobs.ebrd.com/'',
         location = ''Not specified'', posting_date = ''Not specified''\<rparr>]"
proof -
  let ?a = "Tag ''a'' [] [NavigableString ''Banker'']"
  let ?j = "\<lparr>title = ''Banker'', link = ''https://jobs.ebrd.com/'',
        location = ''Not specified'', posting_date = ''Not specified''\<rparr>"
  have h1: "find_tag banker_row ''a'' = Some ?a"
    by code_simp
  have h2: "get_text_strip ?a = ''Banker''"
    by code_simp
  have h3: "tag_get ?a ''href'' = None"
    by simp
  have h4: "parse_row banker_row = Appended ?j"
    by code_simp
  have h2': "get_text_strip ?a \<noteq> []"
    by (simp add: h2)
  note inst = row_without_href [of banker_row ?a "[banker_row, banker_row]" "[]"]
  have hyp: "[banker_row, banker_row] \<noteq> [] \<and>
    (\<forall>r \<in> set [banker_row, banker_row]. \<exists>a. find_tag r ''a'' = Some a \<and> get_text_strip a \<noteq> [] \<and>
        (tag_get a ''href'' = None \<or> tag_get a ''href'' = Some (AStr [])))"
    using h1 h2' h3 by simp
  from inst hyp have r: "length (fst (row_loop [banker_row, banker_row] [] [])) = length [banker_row, banker_row] \<and>
      (\<exists>j. remove_duplicates (fst (row_loop [banker_row, banker_row] [] [])) = [j] \<and>
           parse_row (hd [banker_row, banker_row]) = Appended j \<and> link j = ''https://jobs.ebrd.com/'')"
    by blast
  then have r1: "length (fst (row_loop [banker_row, banker_row] [] [])) = 2"
    by simp
  from r have r2: "remove_duplicates (fst (row_loop [banker_row, banker_row] [] [])) = [?j]"
    by (auto simp: h4)
  from h1 h2 h3 h4 r1 r2 show ?thesis by blast
qed

section \<open>Properties of the run\<close>

lemma print_simps [simp]:
  "files (print w ls) = files w"
  "console (print w ls) = console w @ ls"
  "clock_reads (print w ls) = clock_reads w"
  by (simp_all add: print_def)

lemma main_no_jobs:
  assumes "fst (fetch_jobs_with_selenium e (print w banner)) = Inr []"
  shows "main e w =
     (Returned, print (snd (fetch_jobs_with_selenium e (print w banner))) [Line ''No jobs found!''])"
  using assms
  by (cases "fetch_jobs_with_selenium e (print w banner)") (simp add: main_def)

text \<open>
  For contrast: when the extractor returns records, the feed builder runs, which shows
  in the clock readings, and the feed file is written unless \<^verbatim>\<open>prettify_xml\<close> raises.
\<close>

lemma main_with_jobs:
  assumes "fst (fetch_jobs_with_selenium e (print w banner)) = Inr jobs" and "jobs \<noteq> []"
  shows "clock_reads (snd (main e w)) = clock_reads w + 1 + length (remove_duplicates jobs) \<and>
     (case prettify_xml
             (create_rss_feed (\<lambda>k. clock e (clock_reads w + k)) (remove_duplicates jobs)) of
        Inl err \<Rightarrow>
          fst (main e w) = Raised err \<and>
          files (snd (main e w)) ''ebrd_jobs.xml'' = files w ''ebrd_jobs.xml''
      | Inr xml_content \<Rightarrow>
          fst (main e w) = Returned \<and>
          files (snd (main e w)) ''ebrd_jobs.xml'' = Some xml_content)"
proof -
  obtain w' where f: "fetch_jobs_with_selenium e (print w banner) = (Inr jobs, w')"
    using assms(1) by (cases "fetch_jobs_with_selenium e (print w banner)") simp
  have "clock_reads w' = clock_reads w"
    using fetch_jobs_clock_reads [of e "print w banner"] f by simp
  moreover have "files w' ''ebrd_jobs.xml'' = files w ''ebrd_jobs.xml''"
    using fetch_jobs_files [of "''ebrd_jobs.xml''" e "print w banner"] f by simp
  ultimately show ?thesis
    using assms(2) by (simp add: main_def f Let_def split: sum.split)
qed

lemma well_formed_empty_feed: "well_formed [] (create_rss_feed now [])"
  by (simp add: create_rss_feed_def text_element_def SEARCH_URL_def BASE_URL_def
      qname_def ncname_def declared_def name_char_def name_start_char_def)

text \<open>
  Claim C6. When the extractor returns the empty list, \<^verbatim>\<open>main\<close> returns after printing
  \<^verbatim>\<open>No jobs found!\<close> as its last line: the clock has not been read, so the feed
  builder, which reads it at least once, has not run; the file \<^verbatim>\<open>ebrd_jobs.xml\<close> is
  what it was before the run, as is every file but the debug dump of the extractor.
  The feed builder itself, on the empty list, returns a document: the root
  \<^verbatim>\<open>rss\<close> of version 2.0 with one \<^verbatim>\<open>channel\<close>, whose children are the six
  channel elements and no item, and the tree is well-formed.
\<close>

theorem no_jobs_no_feed:
  "(fst (fetch_jobs_with_selenium e (print w banner)) = Inr [] \<longrightarrow>
      fst (main e w) = Returned \<and>
      clock_reads (snd (main e w)) = clock_reads w \<and>
      files (snd (main e w)) ''ebrd_jobs.xml'' = files w ''ebrd_jobs.xml'' \<and>
      (\<forall>f. f \<noteq> ''debug_page.html'' \<longrightarrow> files (snd (main e w)) f = files w f) \<and>
      console (snd (main e w))
        = console (snd (fetch_jobs_with_selenium e (print w banner))) @ [Line ''No jobs found!'']) \<and>
   (\<exists>channel.
      create_rss_feed now []
        = Element ''rss'' [(''xmlns:atom'', ''http://www.w3.org/2005/Atom''), (''version'', ''2.0'')]
            None [channel] \<and>
      tag channel = ''channel'' \<and>
      map tag (children channel)
        = [''title'', ''link'', ''description'', ''language'', ''lastBuildDate'', ''atom:link''] \<and>
      findall channel ''item'' = [] \<and>
      well_formed [] (create_rss_feed now []))"
proof (rule conjI)
  show "fst (fetch_jobs_with_selenium e (print w banner)) = Inr [] \<longrightarrow>
      fst (main e w) = Returned \<and>
      clock_reads (snd (main e w)) = clock_reads w \<and>
      files (snd (main e w)) ''ebrd_jobs.xml'' = files w ''ebrd_jobs.xml'' \<and>
      (\<forall>f. f \<noteq> ''debug_page.html'' \<longrightarrow> files (snd (main e w)) f = files w f) \<and>
      console (snd (main e w))
        = console (snd (fetch_jobs_with_selenium e (print w banner))) @ [Line ''No jobs found!'']"
  proof (rule impI)
    assume none: "fst (fetch_jobs_with_selenium e (print w banner)) = Inr []"
    let ?w = "snd (fetch_jobs_with_selenium e (print w banner))"
    have m: "main e w = (Returned, print ?w [Line ''No jobs found!''])"
      using none by (rule main_no_jobs)
    have c: "clock_reads ?w = clock_reads w"
      using fetch_jobs_clock_reads [of e "print w banner"] by simp
    have f: "files ?w f = files w f" if "f \<noteq> ''debug_page.html''" for f
      using fetch_jobs_files [OF that, of e "print w banner"] by simp
    have g: "files ?w ''ebrd_jobs.xml'' = files w ''ebrd_jobs.xml''"
      by (rule f) simp
    from c f g show "fst (main e w) = Returned \<and>
      clock_reads (snd (main e w)) = clock_reads w \<and>
      files (snd (main e w)) ''ebrd_jobs.xml'' = files w ''ebrd_jobs.xml'' \<and>
      (\<forall>f. f \<noteq> ''debug_page.html'' \<longrightarrow> files (snd (main e w)) f = files w f) \<and>
      console (snd (main e w)) = console ?w @ [Line ''No jobs found!'']"
      by (simp add: m)
  qed
next
  let ?channel = "Element ''channel'' [] None (channel_head (now 0))"
  have feed: "create_rss_feed now []
        = Element ''rss'' [(''xmlns:atom'', ''http://www.w3.org/2005/Atom''), (''version'', ''2.0'')]
            None [?channel]"
    by (simp add: create_rss_feed_eq)
  have tags: "map tag (children ?channel)
        = [''title'', ''link'', ''description'', ''language'', ''lastBuildDate'', ''atom:link'']"
    by (simp add: channel_head_def text_element_def)
  have items: "findall ?channel ''item'' = []"
    by (simp add: findall_def channel_head_def text_element_def)
  have wf: "well_formed [] (create_rss_feed now [])"
    by (rule well_formed_empty_feed)
  from feed tags items wf
  show "\<exists>channel.
      create_rss_feed now []
        = Element ''rss'' [(''xmlns:atom'', ''http://www.w3.org/2005/Atom''), (''version'', ''2.0'')]
            None [channel] \<and>
      tag channel = ''channel'' \<and>
      map tag (children channel)
        = [''title'', ''link'', ''description'', ''language'', ''lastBuildDate'', ''atom:link''] \<and>
      findall channel ''item'' = [] \<and>
      well_formed [] (create_rss_feed now [])"
    by (intro exI [of _ ?channel]) simp
qed

theorem no_jobs_no_feed_witness:
  "fst (fetch_jobs_with_selenium (example_env other_page) (print example_world banner)) = Inr [] \<and>
   files example_world ''ebrd_jobs.xml'' = Some ''old feed'' \<and>
   clock_reads example_world = 0 \<and>
   fst (main (example_env other_page) example_world) = Returned \<and>
   clock_reads (snd (main (example_env other_page) example_world)) = 0 \<and>
   files (snd (main (example_env other_page) example_world)) ''ebrd_jobs.xml'' = Some ''old feed'' \<and>
   console (snd (main (example_env other_page) example_world))
     = [Line ''============================================================'',
        Line ''EBRD Job Scraper'',
        Line ''============================================================'',
        Line ''Starting Chrome browser (headless mode)...'',
        Line ''Loading EBRD jobs page...'',
        Line ''Waiting for page content to load...'',
        Line ''[OK] Job listings table found'',
        Line ''[OK] Saved debug HTML to debug_page.html'',
        Line ''ERROR: Could not find job listings table'',
        FoundTables 2,
        TableClasses [Some (AList [''layout'']), None],
        Line ''[OK] Browser closed'',
        Line ''No jobs found!'']"
proof -
  let ?e = "example_env other_page"
  have h: "fst (fetch_jobs_with_selenium ?e (print example_world banner)) = Inr []"
    by code_simp
  have w1: "files example_world ''ebrd_jobs.xml'' = Some ''old feed''"
    and w2: "clock_reads example_world = 0"
    by (simp_all add: example_world_def)
  have c: "console (snd (fetch_jobs_with_selenium ?e (print example_world banner)))
     = [Line ''============================================================'',
        Line ''EBRD Job Scraper'',
        Line ''============================================================'',
        Line ''Starting Chrome browser (headless mode)...'',
        Line ''Loading EBRD jobs page...'',
        Line ''Waiting for page content to load...'',
        Line ''[OK] Job listings table found'',
        Line ''[OK] Saved debug HTML to debug_page.html'',
        Line ''ERROR: Could not find job listings table'',
        FoundTables 2,
        TableClasses [Some (AList [''layout'']), None],
        Line ''[OK] Browser closed'']"
    by code_simp
  from no_jobs_no_feed [of ?e example_world "\<lambda>k. []"] h
  have r: "fst (main ?e example_world) = Returned \<and>
      clock_reads (snd (main ?e example_world)) = clock_reads example_world \<and>
      files (snd (main ?e example_world)) ''ebrd_jobs.xml'' = files example_world ''ebrd_jobs.xml'' \<and>
      (\<forall>f. f \<noteq> ''debug_page.html'' \<longrightarrow>
         files (snd (main ?e example_world)) f = files example_world f) \<and>
      console (snd (main ?e example_world))
        = console (snd (fetch_jobs_with_selenium ?e (print example_world banner)))
          @ [Line ''No jobs found!'']"
    by blast
  then have r1: "fst (main ?e example_world) = Returned"
    and r2: "clock_reads (snd (main ?e example_world)) = 0"
    and r3: "files (snd (main ?e example_world)) ''ebrd_jobs.xml'' = Some ''old feed''"
    by (simp_all only: w1 w2)
  from r have r4: "console (snd (main ?e example_world))
     = [Line ''============================================================'',
        Line ''EBRD Job Scraper'',
        Line ''============================================================'',
        Line ''Starting Chrome browser (headless mode)...'',
        Line ''Loading EBRD jobs page...'',
        Line ''Waiting for page content to load...'',
        Line ''[OK] Job listings table found'',
        Line ''[OK] Saved debug HTML to debug_page.html'',
        Line ''ERROR: Could not find job listings table'',
        FoundTables 2,
        TableClasses [Some (AList [''layout'']), None],
        Line ''[OK] Browser closed'',
        Line ''No jobs found!'']"
    by (simp only: c append.simps)
  from h w1 w2 r1 r2 r3 r4 show ?thesis by blast
qed

end
